theory Spec2Isabelle
  imports Main "HOL-Library.Word"
begin

section \<open>Data model\<close>

text \<open>
  The notification service of \<^verbatim>\<open>gorush\<close>: validation of a push request, the two payload
  builders, the registry of APNs clients, the queue of accepted notifications and the two
  dispatchers. Go structs are records with the field names of the source; where two structs
  share a field name the selector is written with its record, as in \<open>PushNotification.Title\<close>.
  A Go \<^verbatim>\<open>error\<close> is a \<open>go_error option\<close> (\<open>None\<close> is \<^verbatim>\<open>nil\<close>), and
  \<^verbatim>\<open>errors.New(msg)\<close> is \<open>GoError msg\<close>. A run-time panic is a value of \<open>go_panic\<close>.
\<close>

datatype go_error = GoError string

datatype go_panic =
    NilPointerDereference
  | IndexOutOfRange
  | InterfaceConversion
  | AssignmentToNilMap

text \<open>\<^verbatim>\<open>type Alert struct\<close>: the APNs alert dictionary of a request.\<close>

record Alert =
  Action :: string
  ActionLocKey :: string
  Body :: string
  LaunchImage :: string
  LocArgs :: "string list"
  LocKey :: string
  Title :: string
  TitleLocArgs :: "string list"
  TitleLocKey :: string

text \<open>
  \<^verbatim>\<open>gcm.Notification\<close> of the GCM client library, with the three fields the service reads
  or writes; the other fields of the library struct are carried along untouched.
\<close>

record gcm_Notification =
  Title :: string
  Body :: string
  Sound :: string

text \<open>
  \<^verbatim>\<open>type PushNotification struct\<close>. \<^verbatim>\<open>Data\<close> has the Go type
  \<^verbatim>\<open>map[string]interface{}\<close>: it is the list of its entries in the order a \<^verbatim>\<open>range\<close> loop
  visits them, over any type \<open>'v\<close> of values. \<^verbatim>\<open>TimeToLive\<close> is a \<^verbatim>\<open>*uint\<close>: an optional
  unsigned 64-bit word. \<^verbatim>\<open>Platform\<close>, \<^verbatim>\<open>Badge\<close> and \<^verbatim>\<open>Expiration\<close> are signed and are only
  compared with constants, so they are integers.
\<close>

record 'v PushNotification =
  Tokens :: "string list"
  Platform :: int
  Message :: string
  Title :: string
  Priority :: string
  ContentAvailable :: bool
  Sound :: string
  Data :: "(string \<times> 'v) list"
  AppID :: string
  APIKey :: string
  To :: string
  CollapseKey :: string
  DelayWhileIdle :: bool
  TimeToLive :: "64 word option"
  RestrictedPackageName :: string
  DryRun :: bool
  Notification :: gcm_Notification
  Expiration :: int
  ApnsID :: string
  Topic :: string
  Badge :: int
  Category :: string
  URLArgs :: "string list"
  Alert :: Alert

text \<open>\<^verbatim>\<open>type RequestPush struct\<close>.\<close>

record 'v RequestPush =
  Notifications :: "'v PushNotification list"

text \<open>
  Modelled from the spec: the platform constants \<^verbatim>\<open>PlatFormIos\<close> and \<^verbatim>\<open>PlatFormAndroid\<close> are
  declared outside the given sources; the request format fixes them as the integer enum
  1 = iOS, 2 = Android.
\<close>

definition PlatFormIos :: int where
  "PlatFormIos = 1"

definition PlatFormAndroid :: int where
  "PlatFormAndroid = 2"

text \<open>\<^verbatim>\<open>var AppNameDefault = "default"\<close>.\<close>

definition AppNameDefault :: string where
  "AppNameDefault = ''default''"

subsection \<open>Configuration\<close>

text \<open>
  Modelled from the spec: the configuration types are declared in the \<^verbatim>\<open>config\<close> package,
  outside the given sources. Each application carries an iOS section (enabled flag, certificate
  path, certificate password, production flag) and an Android section (enabled flag, API key);
  the field names are those the service reads, as in
  \<^verbatim>\<open>PushConf.Apps[id].Ios\<close> (\<^verbatim>\<open>Enabled\<close>, \<^verbatim>\<open>KeyPath\<close>, \<^verbatim>\<open>Password\<close>, \<^verbatim>\<open>Production\<close>) and
  \<^verbatim>\<open>PushConf.Apps[id].Android\<close> (\<^verbatim>\<open>Enabled\<close>, \<^verbatim>\<open>APIKey\<close>). \<^verbatim>\<open>Apps\<close> is a Go map from the
  application identity: reading a missing key gives the zero value of the struct.
\<close>

record SectionIos =
  Enabled :: bool
  KeyPath :: string
  Password :: string
  Production :: bool

record SectionAndroid =
  Enabled :: bool
  APIKey :: string

record SectionApp =
  Ios :: SectionIos
  Android :: SectionAndroid

type_synonym Apps = "string \<rightharpoonup> SectionApp"

definition zero_SectionApp :: SectionApp where
  "zero_SectionApp =
     \<lparr>Ios = \<lparr>SectionIos.Enabled = False, KeyPath = '''', Password = '''', Production = False\<rparr>,
      Android = \<lparr>SectionAndroid.Enabled = False, APIKey = ''''\<rparr>\<rparr>"

definition Apps_at :: "Apps \<Rightarrow> string \<Rightarrow> SectionApp" where
  "Apps_at apps k = (case apps k of None \<Rightarrow> zero_SectionApp | Some a \<Rightarrow> a)"

subsection \<open>Values of the two client libraries\<close>

text \<open>
  The APNs payload of the library \<^verbatim>\<open>sideshow/apns2/payload\<close> is a Go map from keys to
  values. \<^verbatim>\<open>NewPayload\<close> stores the \<^verbatim>\<open>aps\<close> dictionary under the key \<^verbatim>\<open>aps\<close>; a custom value
  can be stored under any key, the key \<^verbatim>\<open>aps\<close> included. In the \<^verbatim>\<open>aps\<close> dictionary the alert is
  absent, a plain string, or a dictionary with the same nine keys as \<open>Alert\<close>; the badge is
  absent or a number; the other keys are omitted from the wire format when empty or zero.
\<close>

datatype alert_value = NoAlert | AlertString string | AlertDictionary Alert

record aps =
  aps_Alert :: alert_value
  aps_Badge :: "int option"
  aps_Category :: string
  aps_ContentAvailable :: int
  aps_URLArgs :: "string list"
  aps_Sound :: string

datatype 'v content_value = ApsValue aps | CustomValue 'v

record 'v Payload =
  content :: "string \<rightharpoonup> 'v content_value"

text \<open>
  \<^verbatim>\<open>apns.Notification\<close>: \<^verbatim>\<open>Expiration\<close> is a \<^verbatim>\<open>time.Time\<close>, here the Unix seconds it was
  built from, or \<open>None\<close> for the zero time; \<^verbatim>\<open>Payload\<close> is an interface value, \<open>None\<close>
  while it is \<^verbatim>\<open>nil\<close>.
\<close>

record 'v apns_Notification =
  ApnsID :: string
  DeviceToken :: string
  Topic :: string
  Expiration :: "int option"
  Priority :: int
  Payload :: "'v Payload option"

definition apns_PriorityLow :: int where
  "apns_PriorityLow = 5"

text \<open>\<^verbatim>\<open>apns.Response\<close>; \<^verbatim>\<open>Sent()\<close> of the library is the test for status 200.\<close>

record apns_Response =
  StatusCode :: int
  Reason :: string

definition Sent :: "apns_Response \<Rightarrow> bool" where
  "Sent res = (StatusCode res = 200)"

text \<open>
  \<^verbatim>\<open>gcm.HttpMessage\<close>: \<^verbatim>\<open>Data\<close> is \<open>None\<close> while the map is \<^verbatim>\<open>nil\<close>, and
  \<^verbatim>\<open>Notification\<close> is a pointer, \<open>None\<close> while it is \<^verbatim>\<open>nil\<close>.
\<close>

record 'v gcm_HttpMessage =
  To :: string
  RegistrationIds :: "string list"
  CollapseKey :: string
  Priority :: string
  ContentAvailable :: bool
  DelayWhileIdle :: bool
  TimeToLive :: "64 word option"
  RestrictedPackageName :: string
  DryRun :: bool
  Data :: "(string \<rightharpoonup> 'v) option"
  Notification :: "gcm_Notification option"

text \<open>
  \<^verbatim>\<open>gcm.HttpResponse\<close> and \<^verbatim>\<open>gcm.Result\<close>, with the fields the dispatcher reads: the
  aggregate counts and the list of per-token results.
\<close>

record gcm_Result =
  Error :: string

record gcm_HttpResponse =
  Success :: int
  Failure :: int
  Results :: "gcm_Result list"

text \<open>
  \<^verbatim>\<open>apns.Client\<close> of the APNs library: the certificate it was built from and the endpoint
  chosen by \<^verbatim>\<open>Production()\<close> or \<^verbatim>\<open>Development()\<close>. The certificate is a value of any type
  \<open>'c\<close>.
\<close>

datatype apns_host = HostDevelopment | HostProduction

record 'c apns_Client =
  Certificate :: 'c
  Host :: apns_host

text \<open>One call of a delivery network, with its arguments.\<close>

datatype ('v, 'c) net_call =
    ApnsPush "'c apns_Client" "'v apns_Notification"
  | GcmSendHttp string "'v gcm_HttpMessage"

subsection \<open>Process-wide state\<close>

text \<open>
  Modelled from the spec: the loggers and \<^verbatim>\<open>LogPush\<close> are declared outside the given
  sources. A call of \<^verbatim>\<open>LogAccess.Debug\<close> or \<^verbatim>\<open>LogError.Error\<close> writes one record with its
  arguments (\<open>AccessDebugCounts\<close> is the debug line with the two counts of an Android
  response), and \<^verbatim>\<open>LogPush(status, token, req, err)\<close> writes the structured record of one
  delivery attempt: outcome tag, destination token, originating notification and error detail.
\<close>

datatype push_status = SucceededPush | FailedPush

datatype 'v log_event =
    AccessDebug string
  | AccessDebugCounts int int
  | ErrorError "string list"
  | PushLog push_status string "'v PushNotification" "go_error option"

text \<open>
  Modelled from the spec: the statistics store is an interface whose implementation is outside
  the given sources. It holds four outcome counters and the total of accepted tokens, and each
  \<^verbatim>\<open>Add...\<close> operation increments one counter by its argument.
\<close>

record StatStorage =
  TotalCount :: int
  IosSuccess :: int
  IosError :: int
  AndroidSuccess :: int
  AndroidError :: int

text \<open>
  The global variables of the package: the two loggers (one event list, in program order), the
  statistics store, the calls made to the two delivery networks (in program order), the
  registry \<^verbatim>\<open>apnsClients.clients\<close> and the channel \<^verbatim>\<open>QueueNotification\<close>, as the list of the
  notifications sent on it, oldest first. The registry is a Go map from the application identity
  to a \<^verbatim>\<open>*apns.Client\<close>. The map itself is \<open>None\<close> while it is \<^verbatim>\<open>nil\<close>, which is how the
  declaration \<^verbatim>\<open>var apnsClients = &ApnsClients{}\<close> leaves it: a read of a nil map finds no key, a
  store into it panics. A stored pointer may be \<^verbatim>\<open>nil\<close> too, here the inner \<open>None\<close>. The locks of
  the registry are not modelled: a call of \<^verbatim>\<open>GetAPNSClient\<close> is one step.
\<close>

record ('v, 'c) globals =
  Log :: "'v log_event list"
  Stats :: StatStorage
  NetworkCalls :: "('v, 'c) net_call list"
  clients :: "(string \<rightharpoonup> 'c apns_Client option) option"
  QueueNotification :: "'v PushNotification list"

definition LogAccess_Debug :: "string \<Rightarrow> ('v, 'c) globals \<Rightarrow> ('v, 'c) globals" where
  "LogAccess_Debug msg g = g\<lparr>Log := Log g @ [AccessDebug msg]\<rparr>"

definition LogError_Error :: "string list \<Rightarrow> ('v, 'c) globals \<Rightarrow> ('v, 'c) globals" where
  "LogError_Error args g = g\<lparr>Log := Log g @ [ErrorError args]\<rparr>"

definition LogPush ::
  "push_status \<Rightarrow> string \<Rightarrow> 'v PushNotification \<Rightarrow> go_error option \<Rightarrow> ('v, 'c) globals \<Rightarrow> ('v, 'c) globals" where
  "LogPush status token req err g = g\<lparr>Log := Log g @ [PushLog status token req err]\<rparr>"

definition AddTotalCount :: "int \<Rightarrow> ('v, 'c) globals \<Rightarrow> ('v, 'c) globals" where
  "AddTotalCount n g = g\<lparr>Stats := (Stats g)\<lparr>TotalCount := TotalCount (Stats g) + n\<rparr>\<rparr>"

definition AddIosSuccess :: "int \<Rightarrow> ('v, 'c) globals \<Rightarrow> ('v, 'c) globals" where
  "AddIosSuccess n g = g\<lparr>Stats := (Stats g)\<lparr>IosSuccess := IosSuccess (Stats g) + n\<rparr>\<rparr>"

definition AddIosError :: "int \<Rightarrow> ('v, 'c) globals \<Rightarrow> ('v, 'c) globals" where
  "AddIosError n g = g\<lparr>Stats := (Stats g)\<lparr>IosError := IosError (Stats g) + n\<rparr>\<rparr>"

definition AddAndroidSuccess :: "int \<Rightarrow> ('v, 'c) globals \<Rightarrow> ('v, 'c) globals" where
  "AddAndroidSuccess n g = g\<lparr>Stats := (Stats g)\<lparr>AndroidSuccess := AndroidSuccess (Stats g) + n\<rparr>\<rparr>"

definition AddAndroidError :: "int \<Rightarrow> ('v, 'c) globals \<Rightarrow> ('v, 'c) globals" where
  "AddAndroidError n g = g\<lparr>Stats := (Stats g)\<lparr>AndroidError := AndroidError (Stats g) + n\<rparr>\<rparr>"

section \<open>The validator\<close>

text \<open>
  \<^verbatim>\<open>func CheckMessage(req PushNotification) error\<close>. Every rejection writes its message to the
  access log at debug level and returns it as the error. The index \<^verbatim>\<open>req.Tokens[0]\<close> is read
  only after the token list was found non-empty. \<^verbatim>\<open>*req.TimeToLive < uint(0)\<close> compares
  unsigned words.
\<close>

definition reject :: "string \<Rightarrow> ('v, 'c) globals \<Rightarrow> go_error option \<times> ('v, 'c) globals" where
  "reject msg g = (Some (GoError msg), LogAccess_Debug msg g)"

definition msg_empty_message :: string where
  "msg_empty_message = ''the message must not be empty''"

definition msg_no_token :: string where
  "msg_no_token = ''the message must specify at least one registration ID''"

definition msg_empty_token :: string where
  "msg_empty_token = ''the token must not be empty''"

definition msg_too_many :: string where
  "msg_too_many = ''the message may specify at most 1000 registration IDs''"

definition msg_ttl :: string where
  "msg_ttl = ''the message'' @ [CHR 0x27] @ ''s TimeToLive field must be an integer '' @
     ''between 0 and 2419200 (4 weeks)''"

definition CheckMessage ::
  "'v PushNotification \<Rightarrow> ('v, 'c) globals \<Rightarrow> go_error option \<times> ('v, 'c) globals" where
  "CheckMessage req g =
     (if Message req = '''' then reject msg_empty_message g
      else if length (Tokens req) = 0 then reject msg_no_token g
      else if int (length (Tokens req)) = PlatFormIos \<and> length (Tokens req ! 0) = 0
        then reject msg_empty_token g
      else if Platform req = PlatFormAndroid \<and> length (Tokens req) > 1000
        then reject msg_too_many g
      else if Platform req = PlatFormAndroid \<and>
              (case PushNotification.TimeToLive req of None \<Rightarrow> False | Some ttl \<Rightarrow> ttl < 0 \<or> 2419200 < ttl)
        then reject msg_ttl g
      else (None, g))"

section \<open>The iOS payload builder\<close>

text \<open>
  The setters of the payload library. \<^verbatim>\<open>Custom\<close> stores a value under a key of the map. Every
  other setter first reads the \<^verbatim>\<open>aps\<close> dictionary with \<^verbatim>\<open>p.content["aps"].(*aps)\<close>, a type
  assertion that panics when the key is missing or holds a custom value, and then updates the
  dictionary. \<^verbatim>\<open>Alert\<close> stores its argument as the alert; each \<^verbatim>\<open>Alert...\<close> setter of a
  dictionary key first replaces an alert that is not a dictionary by an empty dictionary (the
  library's \<^verbatim>\<open>aps.alert()\<close>) and then sets its key.
\<close>

definition zero_Alert :: Alert where
  "zero_Alert =
     \<lparr>Alert.Action = '''', Alert.ActionLocKey = '''', Alert.Body = '''', Alert.LaunchImage = '''',
      Alert.LocArgs = [], Alert.LocKey = '''', Alert.Title = '''', Alert.TitleLocArgs = [],
      Alert.TitleLocKey = ''''\<rparr>"

definition zero_aps :: aps where
  "zero_aps =
     \<lparr>aps_Alert = NoAlert, aps_Badge = None, aps_Category = '''', aps_ContentAvailable = 0,
      aps_URLArgs = [], aps_Sound = ''''\<rparr>"

definition payload_NewPayload :: "'v Payload" where
  "payload_NewPayload = \<lparr>content = [''aps'' \<mapsto> ApsValue zero_aps]\<rparr>"

definition payload_aps :: "'v Payload \<Rightarrow> go_panic + aps" where
  "payload_aps p =
     (case content p ''aps'' of
        Some (ApsValue a) \<Rightarrow> Inr a
      | Some (CustomValue v) \<Rightarrow> Inl InterfaceConversion
      | None \<Rightarrow> Inl InterfaceConversion)"

definition set_aps :: "(aps \<Rightarrow> aps) \<Rightarrow> 'v Payload \<Rightarrow> go_panic + 'v Payload" where
  "set_aps f p =
     (case payload_aps p of
        Inl e \<Rightarrow> Inl e
      | Inr a \<Rightarrow> Inr (p\<lparr>content := (content p)(''aps'' \<mapsto> ApsValue (f a))\<rparr>))"

definition payload_Alert :: "string \<Rightarrow> 'v Payload \<Rightarrow> go_panic + 'v Payload" where
  "payload_Alert x p = set_aps (\<lambda>a. a\<lparr>aps_Alert := AlertString x\<rparr>) p"

definition payload_Badge :: "int \<Rightarrow> 'v Payload \<Rightarrow> go_panic + 'v Payload" where
  "payload_Badge b p = set_aps (\<lambda>a. a\<lparr>aps_Badge := Some b\<rparr>) p"

definition payload_Sound :: "string \<Rightarrow> 'v Payload \<Rightarrow> go_panic + 'v Payload" where
  "payload_Sound x p = set_aps (\<lambda>a. a\<lparr>aps_Sound := x\<rparr>) p"

definition payload_ContentAvailable :: "'v Payload \<Rightarrow> go_panic + 'v Payload" where
  "payload_ContentAvailable p = set_aps (\<lambda>a. a\<lparr>aps_ContentAvailable := 1\<rparr>) p"

definition payload_URLArgs :: "string list \<Rightarrow> 'v Payload \<Rightarrow> go_panic + 'v Payload" where
  "payload_URLArgs args p = set_aps (\<lambda>a. a\<lparr>aps_URLArgs := args\<rparr>) p"

definition payload_Category :: "string \<Rightarrow> 'v Payload \<Rightarrow> go_panic + 'v Payload" where
  "payload_Category c p = set_aps (\<lambda>a. a\<lparr>aps_Category := c\<rparr>) p"

definition payload_Custom :: "string \<Rightarrow> 'v \<Rightarrow> 'v Payload \<Rightarrow> 'v Payload" where
  "payload_Custom k v p = p\<lparr>content := (content p)(k \<mapsto> CustomValue v)\<rparr>"

definition aps_alert :: "aps \<Rightarrow> Alert" where
  "aps_alert a = (case aps_Alert a of AlertDictionary d \<Rightarrow> d | _ \<Rightarrow> zero_Alert)"

definition set_alert :: "(Alert \<Rightarrow> Alert) \<Rightarrow> 'v Payload \<Rightarrow> go_panic + 'v Payload" where
  "set_alert f p = set_aps (\<lambda>a. a\<lparr>aps_Alert := AlertDictionary (f (aps_alert a))\<rparr>) p"

definition payload_AlertTitle :: "string \<Rightarrow> 'v Payload \<Rightarrow> go_panic + 'v Payload" where
  "payload_AlertTitle x p = set_alert (\<lambda>d. d\<lparr>Alert.Title := x\<rparr>) p"

definition payload_AlertTitleLocKey :: "string \<Rightarrow> 'v Payload \<Rightarrow> go_panic + 'v Payload" where
  "payload_AlertTitleLocKey x p = set_alert (\<lambda>d. d\<lparr>Alert.TitleLocKey := x\<rparr>) p"

definition payload_AlertLocArgs :: "string list \<Rightarrow> 'v Payload \<Rightarrow> go_panic + 'v Payload" where
  "payload_AlertLocArgs x p = set_alert (\<lambda>d. d\<lparr>Alert.LocArgs := x\<rparr>) p"

definition payload_AlertTitleLocArgs :: "string list \<Rightarrow> 'v Payload \<Rightarrow> go_panic + 'v Payload" where
  "payload_AlertTitleLocArgs x p = set_alert (\<lambda>d. d\<lparr>Alert.TitleLocArgs := x\<rparr>) p"

definition payload_AlertBody :: "string \<Rightarrow> 'v Payload \<Rightarrow> go_panic + 'v Payload" where
  "payload_AlertBody x p = set_alert (\<lambda>d. d\<lparr>Alert.Body := x\<rparr>) p"

definition payload_AlertLaunchImage :: "string \<Rightarrow> 'v Payload \<Rightarrow> go_panic + 'v Payload" where
  "payload_AlertLaunchImage x p = set_alert (\<lambda>d. d\<lparr>Alert.LaunchImage := x\<rparr>) p"

definition payload_AlertLocKey :: "string \<Rightarrow> 'v Payload \<Rightarrow> go_panic + 'v Payload" where
  "payload_AlertLocKey x p = set_alert (\<lambda>d. d\<lparr>Alert.LocKey := x\<rparr>) p"

definition payload_AlertAction :: "string \<Rightarrow> 'v Payload \<Rightarrow> go_panic + 'v Payload" where
  "payload_AlertAction x p = set_alert (\<lambda>d. d\<lparr>Alert.Action := x\<rparr>) p"

definition payload_AlertActionLocKey :: "string \<Rightarrow> 'v Payload \<Rightarrow> go_panic + 'v Payload" where
  "payload_AlertActionLocKey x p = set_alert (\<lambda>d. d\<lparr>Alert.ActionLocKey := x\<rparr>) p"

text \<open>
  A field update guarded by \<^verbatim>\<open>if len(x) > 0\<close> (or another test of presence), for updates
  that cannot fail.
\<close>

definition when_set :: "bool \<Rightarrow> ('a \<Rightarrow> 'a) \<Rightarrow> 'a \<Rightarrow> 'a" where
  "when_set b f p = (if b then f p else p)"

text \<open>
  Sequencing of steps that may panic: the next step runs on the value of the steps before it,
  and a panic ends the sequence. \<open>then_when\<close> is a step guarded by a test of presence.
\<close>

definition and_then :: "go_panic + 'a \<Rightarrow> ('a \<Rightarrow> go_panic + 'b) \<Rightarrow> go_panic + 'b" where
  "and_then r f = (case r of Inl e \<Rightarrow> Inl e | Inr x \<Rightarrow> f x)"

definition then_when :: "bool \<Rightarrow> ('a \<Rightarrow> go_panic + 'a) \<Rightarrow> go_panic + 'a \<Rightarrow> go_panic + 'a" where
  "then_when b f r = and_then r (\<lambda>x. if b then f x else Inr x)"

text \<open>\<^verbatim>\<open>func iosAlertDictionary(payload *payload.Payload, req PushNotification)\<close>.\<close>

definition iosAlertDictionary :: "'v Payload \<Rightarrow> 'v PushNotification \<Rightarrow> go_panic + 'v Payload" where
  "iosAlertDictionary payload req =
     (let a = PushNotification.Alert req;
          payload = then_when (length (PushNotification.Title req) > 0)
                      (payload_AlertTitle (PushNotification.Title req)) (Inr payload);
          payload = then_when (length (Alert.TitleLocKey a) > 0)
                      (payload_AlertTitleLocKey (Alert.TitleLocKey a)) payload;
          payload = then_when (length (Alert.LocArgs a) > 0)
                      (payload_AlertLocArgs (Alert.LocArgs a)) payload;
          payload = then_when (length (Alert.TitleLocArgs a) > 0)
                      (payload_AlertTitleLocArgs (Alert.TitleLocArgs a)) payload;
          payload = then_when (length (Alert.Body a) > 0)
                      (payload_AlertBody (Alert.Body a)) payload;
          payload = then_when (length (Alert.LaunchImage a) > 0)
                      (payload_AlertLaunchImage (Alert.LaunchImage a)) payload;
          payload = then_when (length (Alert.LocKey a) > 0)
                      (payload_AlertLocKey (Alert.LocKey a)) payload;
          payload = then_when (length (Alert.Action a) > 0)
                      (payload_AlertAction (Alert.Action a)) payload;
          payload = then_when (length (Alert.ActionLocKey a) > 0)
                      (payload_AlertActionLocKey (Alert.ActionLocKey a)) payload;
          payload = then_when (length (PushNotification.Category req) > 0)
                      (payload_Category (PushNotification.Category req)) payload
      in payload)"

text \<open>
  \<^verbatim>\<open>func GetIOSNotification(req PushNotification) *apns.Notification\<close>. The loop over
  \<^verbatim>\<open>req.Data\<close> is a fold over its entries. The function panics when a setter of the payload
  does.
\<close>

definition GetIOSNotification :: "'v PushNotification \<Rightarrow> go_panic + 'v apns_Notification" where
  "GetIOSNotification req =
     (let notification =
            \<lparr>apns_Notification.ApnsID = PushNotification.ApnsID req,
             apns_Notification.DeviceToken = '''',
             apns_Notification.Topic = PushNotification.Topic req,
             apns_Notification.Expiration = None,
             apns_Notification.Priority = 0,
             apns_Notification.Payload = None\<rparr>;
          notification = when_set (PushNotification.Expiration req > 0)
            (\<lambda>n. n\<lparr>apns_Notification.Expiration := Some (PushNotification.Expiration req)\<rparr>)
            notification;
          notification = when_set (length (PushNotification.Priority req) > 0 \<and>
                                   PushNotification.Priority req = ''normal'')
            (\<lambda>n. n\<lparr>apns_Notification.Priority := apns_PriorityLow\<rparr>) notification;
          payload = payload_Alert (Message req) payload_NewPayload;
          payload = then_when (Badge req > 0) (payload_Badge (Badge req)) payload;
          payload = then_when (length (PushNotification.Sound req) > 0)
                      (payload_Sound (PushNotification.Sound req)) payload;
          payload = then_when (PushNotification.ContentAvailable req) payload_ContentAvailable payload;
          payload = then_when (length (URLArgs req) > 0) (payload_URLArgs (URLArgs req)) payload;
          payload = and_then payload
                      (\<lambda>p. Inr (foldl (\<lambda>p (k, v). payload_Custom k v p) p (PushNotification.Data req)));
          payload = and_then payload (\<lambda>p. iosAlertDictionary p req)
      in and_then payload (\<lambda>p. Inr (notification\<lparr>apns_Notification.Payload := Some p\<rparr>)))"

section \<open>The Android payload builder\<close>

text \<open>
  \<^verbatim>\<open>func GetAndroidNotification(req PushNotification) gcm.HttpMessage\<close>.
  \<^verbatim>\<open>notification.Notification\<close> points to the \<^verbatim>\<open>Notification\<close> field of the function's own
  copy of the request, so the three assignments through the pointer are updates of that
  sub-object.
\<close>

definition GetAndroidNotification :: "'v PushNotification \<Rightarrow> 'v gcm_HttpMessage" where
  "GetAndroidNotification req =
     (let notification =
            \<lparr>gcm_HttpMessage.To = PushNotification.To req,
             gcm_HttpMessage.RegistrationIds = [],
             gcm_HttpMessage.CollapseKey = PushNotification.CollapseKey req,
             gcm_HttpMessage.Priority = '''',
             gcm_HttpMessage.ContentAvailable = PushNotification.ContentAvailable req,
             gcm_HttpMessage.DelayWhileIdle = PushNotification.DelayWhileIdle req,
             gcm_HttpMessage.TimeToLive = PushNotification.TimeToLive req,
             gcm_HttpMessage.RestrictedPackageName = PushNotification.RestrictedPackageName req,
             gcm_HttpMessage.DryRun = PushNotification.DryRun req,
             gcm_HttpMessage.Data = None,
             gcm_HttpMessage.Notification = None\<rparr>;
          notification = notification\<lparr>gcm_HttpMessage.RegistrationIds := Tokens req\<rparr>;
          notification = when_set (length (PushNotification.Priority req) > 0 \<and>
                                   PushNotification.Priority req = ''high'')
            (\<lambda>n. n\<lparr>gcm_HttpMessage.Priority := ''high''\<rparr>) notification;
          notification = when_set (length (PushNotification.Data req) > 0)
            (\<lambda>n. n\<lparr>gcm_HttpMessage.Data :=
                      Some (foldl (\<lambda>m (k, v). m(k \<mapsto> v)) Map.empty (PushNotification.Data req))\<rparr>)
            notification;
          sub = PushNotification.Notification req;
          sub = when_set (length (gcm_Notification.Body sub) = 0)
                  (\<lambda>n. n\<lparr>gcm_Notification.Body := Message req\<rparr>) sub;
          sub = when_set (length (PushNotification.Title req) > 0)
                  (\<lambda>n. n\<lparr>gcm_Notification.Title := PushNotification.Title req\<rparr>) sub;
          sub = when_set (length (PushNotification.Sound req) > 0)
                  (\<lambda>n. n\<lparr>gcm_Notification.Sound := PushNotification.Sound req\<rparr>) sub
      in notification\<lparr>gcm_HttpMessage.Notification := Some sub\<rparr>)"

section \<open>The connection registry\<close>

text \<open>
  \<^verbatim>\<open>filepath.Ext\<close> of the Go standard library, on a system whose path separator is the
  slash: the suffix beginning at the last dot of the last path element, empty when there is
  none. The library scans from the end of the string; \<open>Ext_from path i\<close> has the indices
  below \<open>i\<close> still to scan.
\<close>

fun Ext_from :: "string \<Rightarrow> nat \<Rightarrow> string" where
  "Ext_from path 0 = ''''"
| "Ext_from path (Suc i) =
     (if path ! i = CHR ''/'' then ''''
      else if path ! i = CHR ''.'' then drop i path
      else Ext_from path i)"

definition filepath_Ext :: "string \<Rightarrow> string" where
  "filepath_Ext path = Ext_from path (length path)"

text \<open>
  The two decoders of the \<^verbatim>\<open>certificate\<close> package read a file and return a certificate or an
  error; they are parameters of the model.
\<close>

record 'c certificate =
  FromP12File :: "string \<Rightarrow> string \<Rightarrow> go_error + 'c"
  FromPemFile :: "string \<Rightarrow> string \<Rightarrow> go_error + 'c"

definition Error_text :: "go_error \<Rightarrow> string" where
  "Error_text e = (case e of GoError m \<Rightarrow> m)"

text \<open>
  \<^verbatim>\<open>func initAPNSClient(AppID string) (*apns.Client, error)\<close>. The decoded certificate is
  also kept in the package variable \<^verbatim>\<open>CertificatePemIos\<close>, which nothing else here reads.
\<close>

definition initAPNSClient ::
  "'c certificate \<Rightarrow> Apps \<Rightarrow> string \<Rightarrow> ('v, 'c) globals \<Rightarrow>
     ('c apns_Client option \<times> go_error option) \<times> ('v, 'c) globals" where
  "initAPNSClient cert apps appid g =
     (let ios = Ios (Apps_at apps appid) in
      if SectionIos.Enabled ios then
        (let ext = filepath_Ext (KeyPath ios);
             loaded =
               (if ext = ''.p12'' then FromP12File cert (KeyPath ios) (Password ios)
                else if ext = ''.pem'' then FromPemFile cert (KeyPath ios) (Password ios)
                else Inl (GoError ''Wrong Certificate key extension.''))
         in case loaded of
              Inl err \<Rightarrow> ((None, Some err), LogError_Error [''Cert Error:'', Error_text err] g)
            | Inr c \<Rightarrow>
                (if Production ios
                 then ((Some \<lparr>Certificate = c, Host = HostProduction\<rparr>, None), g)
                 else ((Some \<lparr>Certificate = c, Host = HostDevelopment\<rparr>, None), g)))
      else ((None, None), g))"

text \<open>
  \<^verbatim>\<open>func GetAPNSClient(AppID string) (*apns.Client, error)\<close>: the lookup under the read
  lock, the second lookup under the write lock, and on a miss the construction, whose client
  is stored under the identity whatever it is. The store \<^verbatim>\<open>apnsClients.clients[AppID] = client\<close>
  panics when the map is nil.
\<close>

definition clients_at :: "('v, 'c) globals \<Rightarrow> string \<Rightarrow> 'c apns_Client option option" where
  "clients_at g appid = (case clients g of None \<Rightarrow> None | Some m \<Rightarrow> m appid)"

definition GetAPNSClient ::
  "'c certificate \<Rightarrow> Apps \<Rightarrow> string \<Rightarrow> ('v, 'c) globals \<Rightarrow>
     go_panic + (('c apns_Client option \<times> go_error option) \<times> ('v, 'c) globals)" where
  "GetAPNSClient cert apps appid g =
     (case clients_at g appid of
        Some client \<Rightarrow> Inr ((client, None), g)
      | None \<Rightarrow>
          (case clients_at g appid of
             Some client \<Rightarrow> Inr ((client, None), g)
           | None \<Rightarrow>
               (case initAPNSClient cert apps appid g of
                  ((client, err), g') \<Rightarrow>
                    (case clients g' of
                       None \<Rightarrow> Inl AssignmentToNilMap
                     | Some m \<Rightarrow>
                         Inr ((client, err), g'\<lparr>clients := Some (m(appid \<mapsto> client))\<rparr>)))))"

text \<open>
  The states reached from a state \<open>g0\<close> by calls of \<^verbatim>\<open>GetAPNSClient\<close> that return, under one
  configuration, and by steps of the other functions, which leave the registry alone.
\<close>

inductive registry_steps ::
  "'c certificate \<Rightarrow> Apps \<Rightarrow> ('v, 'c) globals \<Rightarrow> ('v, 'c) globals \<Rightarrow> bool"
  for cert :: "'c certificate" and apps :: Apps and g0 :: "('v, 'c) globals" where
  none: "registry_steps cert apps g0 g0"
| lookup: "registry_steps cert apps g0 g \<Longrightarrow> GetAPNSClient cert apps appid g = Inr (r, g') \<Longrightarrow>
     registry_steps cert apps g0 g'"
| other: "registry_steps cert apps g0 g \<Longrightarrow> clients g' = clients g \<Longrightarrow>
     registry_steps cert apps g0 g'"

section \<open>The dispatch queue\<close>

text \<open>
  \<^verbatim>\<open>func queueNotification(req RequestPush) int\<close>. The loop variable \<^verbatim>\<open>notification\<close> is a
  copy of the list element; the copy with the defaulted identity is what is sent on the
  channel. \<open>queue_loop\<close> is the \<^verbatim>\<open>for ... range\<close> loop with \<^verbatim>\<open>count\<close> as accumulator; a send
  on the channel appends to the list of sent notifications.
\<close>

fun queue_loop ::
  "Apps \<Rightarrow> 'v PushNotification list \<Rightarrow> int \<Rightarrow> ('v, 'c) globals \<Rightarrow> int \<times> ('v, 'c) globals" where
  "queue_loop apps [] count g = (count, g)"
| "queue_loop apps (n # ns) count g =
     (let notification = (if AppID n = '''' then n\<lparr>AppID := AppNameDefault\<rparr> else n) in
      if apps (AppID notification) = None
        then queue_loop apps ns count
               (LogError_Error [''Unknown app: '' @ AppID notification] g)
      else if Platform notification = PlatFormIos \<and>
              \<not> SectionIos.Enabled (Ios (Apps_at apps (AppID notification)))
        then queue_loop apps ns count g
      else if Platform notification = PlatFormAndroid \<and>
              \<not> SectionAndroid.Enabled (Android (Apps_at apps (AppID notification)))
        then queue_loop apps ns count g
      else queue_loop apps ns (count + int (length (Tokens notification)))
             (g\<lparr>QueueNotification := QueueNotification g @ [notification]\<rparr>))"

definition queueNotification ::
  "Apps \<Rightarrow> 'v RequestPush \<Rightarrow> ('v, 'c) globals \<Rightarrow> int \<times> ('v, 'c) globals" where
  "queueNotification apps req g =
     (case queue_loop apps (Notifications req) 0 g of
        (count, g') \<Rightarrow> (count, AddTotalCount count g'))"

section \<open>The iOS dispatcher\<close>

text \<open>
  \<^verbatim>\<open>apnsClient.Push\<close> is a call of the delivery network: \<open>push k c n\<close> is what the \<open>k\<close>-th
  call of one dispatch returns for the notification \<open>n\<close> sent through the client \<open>c\<close>, an
  error or a response. Calling \<^verbatim>\<open>Push\<close> on a \<^verbatim>\<open>nil\<close> client dereferences the pointer and
  panics. \<open>ios_loop\<close> is the loop over the tokens, with the number of calls made so far and
  \<^verbatim>\<open>isError\<close> as accumulators.
\<close>

type_synonym ('v, 'c) apns_push =
  "nat \<Rightarrow> 'c apns_Client \<Rightarrow> 'v apns_Notification \<Rightarrow> go_error + apns_Response"

fun ios_loop ::
  "('v, 'c) apns_push \<Rightarrow> 'c apns_Client option \<Rightarrow> 'v PushNotification \<Rightarrow> 'v apns_Notification \<Rightarrow>
     string list \<Rightarrow> nat \<Rightarrow> bool \<Rightarrow> ('v, 'c) globals \<Rightarrow> go_panic + (bool \<times> ('v, 'c) globals)" where
  "ios_loop push apnsClient req notification [] k isError g = Inr (isError, g)"
| "ios_loop push apnsClient req notification (token # tokens) k isError g =
     (let notification = notification\<lparr>DeviceToken := token\<rparr> in
      case apnsClient of
        None \<Rightarrow> Inl NilPointerDereference
      | Some c \<Rightarrow>
          (let g = g\<lparr>NetworkCalls := NetworkCalls g @ [ApnsPush c notification]\<rparr> in
           case push k c notification of
             Inl err \<Rightarrow>
               ios_loop push apnsClient req notification tokens (Suc k) True
                 (AddIosError 1 (LogPush FailedPush token req (Some err) g))
           | Inr res \<Rightarrow>
               (if StatusCode res \<noteq> 200 then
                  ios_loop push apnsClient req notification tokens (Suc k) isError
                    (AddIosError 1 (LogPush FailedPush token req (Some (GoError (Reason res))) g))
                else if Sent res then
                  ios_loop push apnsClient req notification tokens (Suc k) isError
                    (AddIosSuccess 1 (LogPush SucceededPush token req None g))
                else ios_loop push apnsClient req notification tokens (Suc k) isError g)))"

text \<open>
  \<^verbatim>\<open>func PushToIOS(req PushNotification) bool\<close>. The payload is built before the client is
  looked up, so a panic of the builder comes first.
\<close>

definition PushToIOS ::
  "'c certificate \<Rightarrow> Apps \<Rightarrow> ('v, 'c) apns_push \<Rightarrow> 'v PushNotification \<Rightarrow> ('v, 'c) globals \<Rightarrow>
     go_panic + (bool \<times> ('v, 'c) globals)" where
  "PushToIOS cert apps push req g =
     (let g = LogAccess_Debug ''Start push notification for iOS'' g in
      case GetIOSNotification req of
        Inl p \<Rightarrow> Inl p
      | Inr notification \<Rightarrow>
          (case GetAPNSClient cert apps (AppID req) g of
             Inl p \<Rightarrow> Inl p
           | Inr ((apnsClient, Some err), g) \<Rightarrow>
               Inr (True, LogPush FailedPush '''' req (Some err) g)
           | Inr ((apnsClient, None), g) \<Rightarrow>
               ios_loop push apnsClient req notification (Tokens req) 0 False g))"

section \<open>The Android dispatcher\<close>

text \<open>
  \<^verbatim>\<open>gcm.SendHttp\<close> is the one call of the delivery network, a parameter that returns an error
  or a response. \<open>android_results\<close> is the loop over \<^verbatim>\<open>res.Results\<close> with the index \<^verbatim>\<open>k\<close>;
  \<^verbatim>\<open>req.Tokens[k]\<close> panics when \<^verbatim>\<open>k\<close> is not an index of the token list.
\<close>

type_synonym 'v gcm_send = "string \<Rightarrow> 'v gcm_HttpMessage \<Rightarrow> go_error + gcm_HttpResponse"

fun android_results ::
  "'v PushNotification \<Rightarrow> gcm_Result list \<Rightarrow> nat \<Rightarrow> ('v, 'c) globals \<Rightarrow> go_panic + ('v, 'c) globals" where
  "android_results req [] k g = Inr g"
| "android_results req (result # results) k g =
     (if gcm_Result.Error result \<noteq> '''' then
        (if k < length (Tokens req)
         then android_results req results (Suc k)
                (LogPush FailedPush (Tokens req ! k) req (Some (GoError (gcm_Result.Error result))) g)
         else Inl IndexOutOfRange)
      else
        (if k < length (Tokens req)
         then android_results req results (Suc k) (LogPush SucceededPush (Tokens req ! k) req None g)
         else Inl IndexOutOfRange))"

text \<open>\<^verbatim>\<open>func PushToAndroid(req PushNotification) bool\<close>.\<close>

definition PushToAndroid ::
  "'v gcm_send \<Rightarrow> 'v PushNotification \<Rightarrow> ('v, 'c) globals \<Rightarrow> go_panic + (bool \<times> ('v, 'c) globals)" where
  "PushToAndroid send req g =
     (let g = LogAccess_Debug ''Start push notification for Android'' g in
      case CheckMessage req g of
        (Some err, g) \<Rightarrow> Inr (False, LogError_Error [''request error: '' @ Error_text err] g)
      | (None, g) \<Rightarrow>
          (let notification = GetAndroidNotification req;
               g = g\<lparr>NetworkCalls :=
                       NetworkCalls g @ [GcmSendHttp (PushNotification.APIKey req) notification]\<rparr>
           in case send (PushNotification.APIKey req) notification of
                Inl err \<Rightarrow> Inr (False, LogError_Error [''GCM server error: '' @ Error_text err] g)
              | Inr res \<Rightarrow>
                  (let g = g\<lparr>Log := Log g @ [AccessDebugCounts (Success res) (Failure res)]\<rparr>;
                       g = AddAndroidSuccess (Success res) g;
                       g = AddAndroidError (Failure res) g
                   in case android_results req (Results res) 0 g of
                        Inl p \<Rightarrow> Inl p
                      | Inr g \<Rightarrow> Inr (True, g))))"

section \<open>Concrete values\<close>

text \<open>
  The zero value of a request, from which the examples below are built by setting fields, a
  configuration with three applications, a certificate decoder, the state of a process that
  has just started, with the registry map nil as its declaration leaves it, and the same state
  with the registry map allocated and empty, as a set-up of the registry would leave it.
\<close>

definition zero_PushNotification :: "unit PushNotification" where
  "zero_PushNotification =
     \<lparr>PushNotification.Tokens = [], PushNotification.Platform = 0,
      PushNotification.Message = '''', PushNotification.Title = '''',
      PushNotification.Priority = '''', PushNotification.ContentAvailable = False,
      PushNotification.Sound = '''', PushNotification.Data = [], PushNotification.AppID = '''',
      PushNotification.APIKey = '''', PushNotification.To = '''',
      PushNotification.CollapseKey = '''', PushNotification.DelayWhileIdle = False,
      PushNotification.TimeToLive = None, PushNotification.RestrictedPackageName = '''',
      PushNotification.DryRun = False,
      PushNotification.Notification =
        \<lparr>gcm_Notification.Title = '''', gcm_Notification.Body = '''', gcm_Notification.Sound = ''''\<rparr>,
      PushNotification.Expiration = 0, PushNotification.ApnsID = '''',
      PushNotification.Topic = '''', PushNotification.Badge = 0, PushNotification.Category = '''',
      PushNotification.URLArgs = [], PushNotification.Alert = zero_Alert\<rparr>"

definition ios_hello :: "unit PushNotification" where
  "ios_hello = zero_PushNotification
     \<lparr>Tokens := [''t1''], Platform := 1, Message := ''hello'', AppID := ''shop''\<rparr>"

definition ios_default :: "unit PushNotification" where
  "ios_default = zero_PushNotification
     \<lparr>Tokens := [''t1''], Platform := 1, Message := ''hello'', AppID := ''default''\<rparr>"

definition android_hello :: "unit PushNotification" where
  "android_hello = zero_PushNotification
     \<lparr>Tokens := [''r1'', ''r2''], Platform := 2, Message := ''hello'', AppID := ''shop''\<rparr>"

definition example_apps :: Apps where
  "example_apps =
     [''default'' \<mapsto> \<lparr>Ios = \<lparr>SectionIos.Enabled = True, KeyPath = ''certs/key.pem'',
                                Password = ''pw'', Production = False\<rparr>,
                       Android = \<lparr>SectionAndroid.Enabled = True, APIKey = ''k''\<rparr>\<rparr>,
      ''shop'' \<mapsto> \<lparr>Ios = \<lparr>SectionIos.Enabled = False, KeyPath = '''', Password = '''',
                             Production = False\<rparr>,
                    Android = \<lparr>SectionAndroid.Enabled = True, APIKey = ''k2''\<rparr>\<rparr>,
      ''blog'' \<mapsto> \<lparr>Ios = \<lparr>SectionIos.Enabled = True, KeyPath = ''certs/key.txt'',
                             Password = ''pw'', Production = True\<rparr>,
                    Android = \<lparr>SectionAndroid.Enabled = False, APIKey = ''''\<rparr>\<rparr>]"

definition example_cert :: "string certificate" where
  "example_cert =
     \<lparr>FromP12File = (\<lambda>path pw. Inr path), FromPemFile = (\<lambda>path pw. Inr path)\<rparr>"

definition start_globals :: "(unit, string) globals" where
  "start_globals =
     \<lparr>Log = [],
      Stats = \<lparr>TotalCount = 0, IosSuccess = 0, IosError = 0, AndroidSuccess = 0,
               AndroidError = 0\<rparr>,
      NetworkCalls = [], clients = None, QueueNotification = []\<rparr>"

definition allocated_globals :: "(unit, string) globals" where
  "allocated_globals = start_globals\<lparr>clients := Some Map.empty\<rparr>"

definition blog_poisoned :: "(unit, string) globals" where
  "blog_poisoned = start_globals
     \<lparr>Log := [ErrorError [''Cert Error:'', ''Wrong Certificate key extension.'']],
      clients := Some [''blog'' \<mapsto> None]\<rparr>"

definition ios_blog :: "unit PushNotification" where
  "ios_blog = zero_PushNotification
     \<lparr>Tokens := [''t1''], Platform := 1, Message := ''hello'', AppID := ''blog''\<rparr>"

definition send_three :: "unit gcm_send" where
  "send_three key m =
     Inr \<lparr>Success = 3, Failure = 0,
          Results = [\<lparr>gcm_Result.Error = ''''\<rparr>, \<lparr>gcm_Result.Error = ''''\<rparr>,
                     \<lparr>gcm_Result.Error = ''''\<rparr>]\<rparr>"

definition android_many :: "nat \<Rightarrow> unit PushNotification" where
  "android_many n = zero_PushNotification
     \<lparr>Tokens := replicate n ''r'', Platform := 2, Message := ''hello'', AppID := ''shop''\<rparr>"

definition android_ttl :: "64 word \<Rightarrow> unit PushNotification" where
  "android_ttl t = android_hello\<lparr>PushNotification.TimeToLive := Some t\<rparr>"

definition rejected_response :: apns_Response where
  "rejected_response = \<lparr>StatusCode = 400, Reason = ''BadDeviceToken''\<rparr>"

definition push_rejected :: "(unit, string) apns_push" where
  "push_rejected k c n = Inr rejected_response"

definition send_completed :: "unit gcm_send" where
  "send_completed key m =
     Inr \<lparr>Success = 1, Failure = 1,
          Results = [\<lparr>gcm_Result.Error = ''''\<rparr>, \<lparr>gcm_Result.Error = ''NotRegistered''\<rparr>]\<rparr>"

definition send_failed :: "unit gcm_send" where
  "send_failed key m = Inl (GoError ''connection refused'')"

definition other_platform :: "unit PushNotification" where
  "other_platform = zero_PushNotification
     \<lparr>Tokens := [''t1''], Platform := 3, Message := ''hello'', AppID := ''default''\<rparr>"

definition mixed_request :: "unit RequestPush" where
  "mixed_request =
     \<lparr>Notifications =
        [android_hello, ios_hello, ios_default\<lparr>AppID := ''''\<rparr>, android_hello\<lparr>AppID := ''nobody''\<rparr>]\<rparr>"

section \<open>Notions used by the properties\<close>

text \<open>The records of delivery attempts among the log events.\<close>

fun is_PushLog :: "'v log_event \<Rightarrow> bool" where
  "is_PushLog (PushLog status token req err) = True"
| "is_PushLog e = False"

text \<open>
  The eligibility rule in the words of the specification: the identity of a notification is its
  own or, when it names none, the default application; a notification is eligible when that
  identity is configured and the configured application has the platform of the notification
  enabled.
\<close>

definition with_identity :: "'v PushNotification \<Rightarrow> 'v PushNotification" where
  "with_identity n = (if AppID n = '''' then n\<lparr>AppID := AppNameDefault\<rparr> else n)"

definition spec_eligible :: "Apps \<Rightarrow> 'v PushNotification \<Rightarrow> bool" where
  "spec_eligible apps n =
     (case apps (AppID (with_identity n)) of
        None \<Rightarrow> False
      | Some app \<Rightarrow>
          (Platform n = PlatFormIos \<and> SectionIos.Enabled (Ios app)) \<or>
          (Platform n = PlatFormAndroid \<and> SectionAndroid.Enabled (Android app)))"

definition token_total :: "'v PushNotification list \<Rightarrow> int" where
  "token_total ns = sum_list (map (\<lambda>n. int (length (Tokens n))) ns)"

text \<open>
  What the caller, the statistics store and the log of delivery attempts show of a dispatch.
\<close>

definition dispatch_outcome ::
  "go_panic + (bool \<times> ('v, 'c) globals) \<Rightarrow>
     go_panic + (bool \<times> StatStorage \<times> 'v log_event list)" where
  "dispatch_outcome r =
     (case r of
        Inl p \<Rightarrow> Inl p
      | Inr (b, g) \<Rightarrow> Inr (b, Stats g, filter is_PushLog (Log g)))"

section \<open>Properties of the validator\<close>

lemma msgs_distinct:
  "msg_empty_message \<noteq> msg_empty_token" "msg_no_token \<noteq> msg_empty_token"
  "msg_too_many \<noteq> msg_empty_token" "msg_ttl \<noteq> msg_empty_token"
  "msg_empty_message \<noteq> msg_too_many" "msg_no_token \<noteq> msg_too_many"
  "msg_empty_token \<noteq> msg_too_many" "msg_ttl \<noteq> msg_too_many"
  by (simp_all add: msg_empty_message_def msg_no_token_def msg_empty_token_def
        msg_too_many_def msg_ttl_def)

lemma fst_reject: "fst (reject m g) = Some (GoError m)"
  by (simp add: reject_def)

lemma fst_CheckMessage:
  "fst (CheckMessage req g) =
     (if Message req = '''' then Some (GoError msg_empty_message)
      else if Tokens req = [] then Some (GoError msg_no_token)
      else if Tokens req = [''''] then Some (GoError msg_empty_token)
      else if Platform req = PlatFormAndroid \<and> 1000 < length (Tokens req)
        then Some (GoError msg_too_many)
      else if Platform req = PlatFormAndroid \<and>
              (case PushNotification.TimeToLive req of None \<Rightarrow> False | Some ttl \<Rightarrow> 2419200 < unat ttl)
        then Some (GoError msg_ttl)
      else None)"
proof -
  have one: "(int (length (Tokens req)) = PlatFormIos \<and> length (Tokens req ! 0) = 0) =
             (Tokens req = [''''])"
    by (cases "Tokens req") (auto simp add: PlatFormIos_def)
  show ?thesis
    unfolding CheckMessage_def one
    by (auto simp add: fst_reject word_less_nat_alt split: option.split)
qed

lemma CheckMessage_state:
  "CheckMessage req g =
     (case fst (CheckMessage req g) of
        None \<Rightarrow> (None, g)
      | Some e \<Rightarrow> (Some e, LogAccess_Debug (Error_text e) g))"
  by (simp add: CheckMessage_def reject_def Error_text_def)

text \<open>
  Claim C3. For a request with a non-empty message, the validator returns the error
  "the token must not be empty" exactly when the number of tokens equals the constant of the
  iOS platform, that is 1, and the first token is the empty string; the platform of the
  request plays no part. With any other number of tokens the validator never returns this
  error, whatever the first token is.
\<close>

theorem CheckMessage_token_must_not_be_empty:
  "(Message req \<noteq> '''' \<longrightarrow>
      (fst (CheckMessage req g) = Some (GoError ''the token must not be empty'')) =
        (int (length (Tokens req)) = PlatFormIos \<and> hd (Tokens req) = '''')) \<and>
   (length (Tokens req) \<noteq> 1 \<longrightarrow>
      fst (CheckMessage req g) \<noteq> Some (GoError ''the token must not be empty''))"
proof -
  have shape: "(int (length (Tokens req)) = PlatFormIos \<and> hd (Tokens req) = '''') =
               (Tokens req = [''''])"
    by (cases "Tokens req") (auto simp add: PlatFormIos_def)
  show ?thesis
    unfolding shape fst_CheckMessage msg_empty_token_def [symmetric]
    using msgs_distinct by auto
qed

theorem CheckMessage_token_must_not_be_empty_witness:
  "Message (android_hello\<lparr>Tokens := ['''']\<rparr>) \<noteq> '''' \<and>
   Platform (android_hello\<lparr>Tokens := ['''']\<rparr>) = PlatFormAndroid \<and>
   fst (CheckMessage (android_hello\<lparr>Tokens := ['''']\<rparr>) start_globals) =
     Some (GoError ''the token must not be empty'') \<and>
   length (Tokens (android_hello\<lparr>Tokens := ['''', '''']\<rparr>)) \<noteq> 1 \<and>
   fst (CheckMessage (android_hello\<lparr>Tokens := ['''', '''']\<rparr>) start_globals) \<noteq>
     Some (GoError ''the token must not be empty'')"
  using CheckMessage_token_must_not_be_empty [of "android_hello\<lparr>Tokens := ['''']\<rparr>" start_globals]
    CheckMessage_token_must_not_be_empty [of "android_hello\<lparr>Tokens := ['''', '''']\<rparr>" start_globals]
  by (simp add: android_hello_def zero_PushNotification_def PlatFormIos_def PlatFormAndroid_def)

lemma fst_CheckMessage_any: "fst (CheckMessage req g) = fst (CheckMessage req g')"
  by (simp add: fst_CheckMessage)

lemma PushToAndroid_rejected:
  assumes "fst (CheckMessage req g) = Some e"
  shows "PushToAndroid send req g =
           Inr (False, LogError_Error [''request error: '' @ Error_text e]
                  (LogAccess_Debug (Error_text e)
                     (LogAccess_Debug ''Start push notification for Android'' g)))"
proof -
  let ?g = "LogAccess_Debug ''Start push notification for Android'' g"
  have "fst (CheckMessage req ?g) = Some e"
    using assms fst_CheckMessage_any [of req ?g g] by simp
  then have "CheckMessage req ?g = (Some e, LogAccess_Debug (Error_text e) ?g)"
    using CheckMessage_state [of req ?g] by simp
  then show ?thesis
    by (simp add: PushToAndroid_def)
qed

lemma PushToAndroid_accepted:
  assumes "fst (CheckMessage req g) = None"
  shows "PushToAndroid send req g =
           (let g1 = LogAccess_Debug ''Start push notification for Android'' g;
                notification = GetAndroidNotification req;
                g2 = g1\<lparr>NetworkCalls :=
                          NetworkCalls g1 @ [GcmSendHttp (PushNotification.APIKey req) notification]\<rparr>
            in case send (PushNotification.APIKey req) notification of
                 Inl err \<Rightarrow> Inr (False, LogError_Error [''GCM server error: '' @ Error_text err] g2)
               | Inr res \<Rightarrow>
                   (case android_results req (Results res) 0
                           (AddAndroidError (Failure res) (AddAndroidSuccess (Success res)
                              (g2\<lparr>Log := Log g2 @ [AccessDebugCounts (Success res) (Failure res)]\<rparr>))) of
                      Inl p \<Rightarrow> Inl p
                    | Inr g3 \<Rightarrow> Inr (True, g3)))"
proof -
  let ?g = "LogAccess_Debug ''Start push notification for Android'' g"
  have "fst (CheckMessage req ?g) = None"
    using assms fst_CheckMessage_any [of req ?g g] by simp
  then have "CheckMessage req ?g = (None, ?g)"
    using CheckMessage_state [of req ?g] by simp
  then show ?thesis
    by (simp add: PushToAndroid_def Let_def split: sum.split)
qed

lemma android_results_aligned:
  "length results + k \<le> length (Tokens req) \<Longrightarrow> \<exists>g'. android_results req results k g = Inr g'"
  by (induction results arbitrary: k g) auto

text \<open>
  Claim C6. For an Android request, more than 1000 tokens are always rejected, with the error
  "the message may specify at most 1000 registration IDs" as soon as the message is not empty
  (an empty message is reported first); the dispatcher then returns false and the list of
  network calls is as it was. A list of exactly 1000 tokens never gets this error, and the
  request is accepted when its message is not empty and its time to live is absent or in
  range.
\<close>

theorem CheckMessage_android_token_limit:
  assumes "Platform req = PlatFormAndroid"
  shows "(1000 < length (Tokens req) \<longrightarrow>
            fst (CheckMessage req g) \<noteq> None \<and>
            (Message req \<noteq> '''' \<longrightarrow>
               fst (CheckMessage req g) =
                 Some (GoError ''the message may specify at most 1000 registration IDs'')) \<and>
            (\<exists>g'. PushToAndroid send req g = Inr (False, g') \<and> NetworkCalls g' = NetworkCalls g)) \<and>
         (length (Tokens req) = 1000 \<longrightarrow>
            fst (CheckMessage req g) \<noteq>
              Some (GoError ''the message may specify at most 1000 registration IDs'') \<and>
            (Message req \<noteq> '''' \<and>
             (\<forall>ttl. PushNotification.TimeToLive req = Some ttl \<longrightarrow> unat ttl \<le> 2419200) \<longrightarrow>
               fst (CheckMessage req g) = None))"
proof (intro conjI impI)
  assume long: "1000 < length (Tokens req)"
  then have shape: "Tokens req \<noteq> []" "Tokens req \<noteq> ['''']"
    by auto
  show rejected: "fst (CheckMessage req g) \<noteq> None"
    using assms long by (simp add: fst_CheckMessage)
  show "fst (CheckMessage req g) =
          Some (GoError ''the message may specify at most 1000 registration IDs'')"
    if "Message req \<noteq> ''''"
    using assms long shape that by (simp add: fst_CheckMessage msg_too_many_def)
  from rejected obtain e where "fst (CheckMessage req g) = Some e"
    by auto
  then show "\<exists>g'. PushToAndroid send req g = Inr (False, g') \<and> NetworkCalls g' = NetworkCalls g"
    by (simp add: PushToAndroid_rejected LogError_Error_def LogAccess_Debug_def)
next
  assume exact: "length (Tokens req) = 1000"
  then have shape: "Tokens req \<noteq> []" "Tokens req \<noteq> ['''']"
    by auto
  show "fst (CheckMessage req g) \<noteq>
          Some (GoError ''the message may specify at most 1000 registration IDs'')"
    unfolding msg_too_many_def [symmetric]
    using exact shape msgs_distinct by (simp add: fst_CheckMessage)
  show "fst (CheckMessage req g) = None"
    if "Message req \<noteq> '''' \<and>
        (\<forall>ttl. PushNotification.TimeToLive req = Some ttl \<longrightarrow> unat ttl \<le> 2419200)"
    using exact shape that by (auto simp add: fst_CheckMessage split: option.split)
qed

theorem CheckMessage_android_token_limit_witness:
  "Platform (android_many 1001) = PlatFormAndroid \<and> 1000 < length (Tokens (android_many 1001)) \<and>
   Message (android_many 1001) \<noteq> '''' \<and>
   fst (CheckMessage (android_many 1001) start_globals) =
     Some (GoError ''the message may specify at most 1000 registration IDs'') \<and>
   (\<exists>g'. PushToAndroid send_completed (android_many 1001) start_globals = Inr (False, g') \<and>
         NetworkCalls g' = []) \<and>
   Platform (android_many 1000) = PlatFormAndroid \<and> length (Tokens (android_many 1000)) = 1000 \<and>
   PushNotification.TimeToLive (android_many 1000) = None \<and>
   fst (CheckMessage (android_many 1000) start_globals) = None"
  using CheckMessage_android_token_limit [of "android_many 1001" start_globals send_completed]
    CheckMessage_android_token_limit [of "android_many 1000" start_globals send_completed]
  by (simp add: android_many_def zero_PushNotification_def PlatFormAndroid_def start_globals_def)

text \<open>
  Claim C7. For an Android request with a time to live, a value above 2419200 is always
  rejected, and when the checks before it pass (message and token list not empty, not a single
  empty token, at most 1000 tokens) the result is the range error for a value above 2419200
  and acceptance for every value from 0 to 2419200, both ends included. The field is an
  unsigned word, so no value lies below 0.
\<close>

theorem CheckMessage_android_time_to_live:
  assumes "Platform req = PlatFormAndroid" and "PushNotification.TimeToLive req = Some ttl"
  shows "(2419200 < unat ttl \<longrightarrow> fst (CheckMessage req g) \<noteq> None) \<and>
         (Message req \<noteq> '''' \<and> Tokens req \<noteq> [] \<and> Tokens req \<noteq> [''''] \<and>
          length (Tokens req) \<le> 1000 \<longrightarrow>
            fst (CheckMessage req g) =
              (if 2419200 < unat ttl then Some (GoError msg_ttl) else None))"
  using assms by (simp add: fst_CheckMessage)

theorem CheckMessage_android_time_to_live_witness:
  "Platform (android_ttl 2419201) = PlatFormAndroid \<and>
   PushNotification.TimeToLive (android_ttl 2419201) = Some 2419201 \<and>
   Message (android_ttl 2419201) \<noteq> '''' \<and> length (Tokens (android_ttl 2419201)) \<le> 1000 \<and>
   fst (CheckMessage (android_ttl 2419201) start_globals) = Some (GoError msg_ttl) \<and>
   fst (CheckMessage (android_ttl 2419200) start_globals) = None \<and>
   fst (CheckMessage (android_ttl 0) start_globals) = None"
  using CheckMessage_android_time_to_live [of "android_ttl 2419201" 2419201 start_globals]
    CheckMessage_android_time_to_live [of "android_ttl 2419200" 2419200 start_globals]
    CheckMessage_android_time_to_live [of "android_ttl 0" 0 start_globals]
  by (simp add: android_ttl_def android_hello_def zero_PushNotification_def PlatFormAndroid_def)

section \<open>Properties of the Android dispatcher\<close>

text \<open>
  Claim C5, as stated, fails. The request has two tokens and passes the re-validation; the call
  of the delivery network completes with a response that holds three results. The loop over the
  results reads the token list at the index 2, which is out of range, so the dispatcher panics
  and returns nothing.
\<close>

theorem PushToAndroid_more_results_than_tokens:
  "fst (CheckMessage android_hello start_globals) = None \<and>
   length (Tokens android_hello) = 2 \<and>
   send_three (PushNotification.APIKey android_hello) (GetAndroidNotification android_hello) =
     Inr \<lparr>Success = 3, Failure = 0,
          Results = [\<lparr>gcm_Result.Error = ''''\<rparr>, \<lparr>gcm_Result.Error = ''''\<rparr>,
                     \<lparr>gcm_Result.Error = ''''\<rparr>]\<rparr> \<and>
   PushToAndroid send_three android_hello start_globals = Inl IndexOutOfRange"
proof -
  have ok: "fst (CheckMessage android_hello start_globals) = None"
    by (simp add: fst_CheckMessage android_hello_def zero_PushNotification_def PlatFormAndroid_def)
  have toks: "Tokens android_hello = [''r1'', ''r2'']"
    by (simp add: android_hello_def zero_PushNotification_def)
  show ?thesis
    by (simp add: ok PushToAndroid_accepted [OF ok] send_three_def toks LogPush_def)
qed

text \<open>
  Claim C5, amended. When the re-validation fails, or when the one call of the delivery network
  returns a transport error, the Android dispatcher returns false, every counter keeps its value
  and no record of a delivery attempt is added to the log. When the call completes, the
  dispatcher never returns false, however many tokens failed, and it returns true for every
  response that holds at most one result per submitted token.
\<close>

theorem PushToAndroid_return_value:
  "(fst (CheckMessage req g) \<noteq> None \<or>
    (\<exists>err. send (PushNotification.APIKey req) (GetAndroidNotification req) = Inl err) \<longrightarrow>
      (\<exists>g'. PushToAndroid send req g = Inr (False, g') \<and> Stats g' = Stats g \<and>
            filter is_PushLog (Log g') = filter is_PushLog (Log g))) \<and>
   (fst (CheckMessage req g) = None \<and>
    send (PushNotification.APIKey req) (GetAndroidNotification req) = Inr res \<longrightarrow>
      (\<forall>g'. PushToAndroid send req g \<noteq> Inr (False, g')) \<and>
      (length (Results res) \<le> length (Tokens req) \<longrightarrow>
         (\<exists>g'. PushToAndroid send req g = Inr (True, g'))))"
proof (intro conjI impI)
  assume fails: "fst (CheckMessage req g) \<noteq> None \<or>
    (\<exists>err. send (PushNotification.APIKey req) (GetAndroidNotification req) = Inl err)"
  show "\<exists>g'. PushToAndroid send req g = Inr (False, g') \<and> Stats g' = Stats g \<and>
          filter is_PushLog (Log g') = filter is_PushLog (Log g)"
  proof (cases "fst (CheckMessage req g)")
    case (Some e)
    then show ?thesis
      by (simp add: PushToAndroid_rejected LogError_Error_def LogAccess_Debug_def)
  next
    case None
    with fails obtain err
      where "send (PushNotification.APIKey req) (GetAndroidNotification req) = Inl err"
      by auto
    with None show ?thesis
      by (simp add: PushToAndroid_accepted LogError_Error_def LogAccess_Debug_def)
  qed
next
  assume completed: "fst (CheckMessage req g) = None \<and>
    send (PushNotification.APIKey req) (GetAndroidNotification req) = Inr res"
  then show "\<forall>g'. PushToAndroid send req g \<noteq> Inr (False, g')"
    by (simp add: PushToAndroid_accepted Let_def split: sum.split)
  show "\<exists>g'. PushToAndroid send req g = Inr (True, g')"
    if "length (Results res) \<le> length (Tokens req)"
  proof -
    let ?g = "AddAndroidError (Failure res) (AddAndroidSuccess (Success res)
      (LogAccess_Debug ''Start push notification for Android'' g
         \<lparr>NetworkCalls := NetworkCalls (LogAccess_Debug ''Start push notification for Android'' g) @
            [GcmSendHttp (PushNotification.APIKey req) (GetAndroidNotification req)],
          Log := Log (LogAccess_Debug ''Start push notification for Android'' g) @
            [AccessDebugCounts (Success res) (Failure res)]\<rparr>))"
    from that obtain g' where "android_results req (Results res) 0 ?g = Inr g'"
      using android_results_aligned [of "Results res" 0 req ?g] by auto
    with completed show ?thesis
      by (simp add: PushToAndroid_accepted Let_def)
  qed
qed

theorem PushToAndroid_return_value_witness:
  "fst (CheckMessage (android_hello\<lparr>Message := ''''\<rparr>) start_globals) \<noteq> None \<and>
   (\<exists>g'. PushToAndroid send_completed (android_hello\<lparr>Message := ''''\<rparr>) start_globals =
            Inr (False, g') \<and> Stats g' = Stats start_globals \<and>
          filter is_PushLog (Log g') = []) \<and>
   (\<exists>err. send_failed (PushNotification.APIKey android_hello) (GetAndroidNotification android_hello) =
            Inl err) \<and>
   (\<exists>g'. PushToAndroid send_failed android_hello start_globals = Inr (False, g') \<and>
          Stats g' = Stats start_globals \<and> filter is_PushLog (Log g') = []) \<and>
   fst (CheckMessage android_hello start_globals) = None \<and>
   send_completed (PushNotification.APIKey android_hello) (GetAndroidNotification android_hello) =
     Inr \<lparr>Success = 1, Failure = 1,
          Results = [\<lparr>gcm_Result.Error = ''''\<rparr>, \<lparr>gcm_Result.Error = ''NotRegistered''\<rparr>]\<rparr> \<and>
   (\<exists>g'. PushToAndroid send_completed android_hello start_globals = Inr (True, g'))"
  using PushToAndroid_return_value [of "android_hello\<lparr>Message := ''''\<rparr>" start_globals send_completed]
    PushToAndroid_return_value [of android_hello start_globals send_failed]
    PushToAndroid_return_value [of android_hello start_globals send_completed
      "\<lparr>Success = 1, Failure = 1,
        Results = [\<lparr>gcm_Result.Error = ''''\<rparr>, \<lparr>gcm_Result.Error = ''NotRegistered''\<rparr>]\<rparr>"]
  by (simp add: fst_CheckMessage android_hello_def zero_PushNotification_def PlatFormAndroid_def
        start_globals_def send_failed_def send_completed_def)

section \<open>Properties of the payload builders\<close>

lemma iosAlertDictionary_nothing_set:
  assumes "PushNotification.Title req = ''''" and "PushNotification.Category req = ''''"
    and "PushNotification.Alert req = zero_Alert"
  shows "iosAlertDictionary payload req = Inr payload"
  using assms by (simp add: iosAlertDictionary_def then_when_def and_then_def zero_Alert_def)

text \<open>
  Claim C8. When, of all the fields the iOS payload builder reads, only the message is set
  (no title, badge 0, no sound, no content-available flag, no URL arguments, no custom data, no
  category and an empty alert sub-object), the builder returns a notification whose payload
  holds the \<^verbatim>\<open>aps\<close> dictionary and no other key, and in that dictionary the plain-string
  alert holding the message and nothing else: no badge, no sound, no category, no
  content-available mark, no URL arguments and no alert dictionary.
\<close>

theorem GetIOSNotification_message_only:
  assumes "PushNotification.Title req = ''''" and "Badge req = 0"
    and "PushNotification.Sound req = ''''" and "\<not> PushNotification.ContentAvailable req"
    and "URLArgs req = []" and "PushNotification.Data req = []"
    and "PushNotification.Category req = ''''" and "PushNotification.Alert req = zero_Alert"
  shows "map_sum id apns_Notification.Payload (GetIOSNotification req) =
           Inr (Some \<lparr>content =
                  [''aps'' \<mapsto> ApsValue
                     \<lparr>aps_Alert = AlertString (Message req), aps_Badge = None,
                      aps_Category = '''', aps_ContentAvailable = 0, aps_URLArgs = [],
                      aps_Sound = ''''\<rparr>]\<rparr>)"
  using assms
  by (simp add: GetIOSNotification_def iosAlertDictionary_nothing_set when_set_def
        then_when_def and_then_def payload_Alert_def set_aps_def payload_aps_def
        payload_NewPayload_def zero_aps_def Let_def)

theorem GetIOSNotification_message_only_witness:
  "PushNotification.Title ios_hello = '''' \<and> Badge ios_hello = 0 \<and>
   PushNotification.Sound ios_hello = '''' \<and> \<not> PushNotification.ContentAvailable ios_hello \<and>
   URLArgs ios_hello = [] \<and> PushNotification.Data ios_hello = [] \<and>
   PushNotification.Category ios_hello = '''' \<and> PushNotification.Alert ios_hello = zero_Alert \<and>
   map_sum id apns_Notification.Payload (GetIOSNotification ios_hello) =
     Inr (Some \<lparr>content =
            [''aps'' \<mapsto> ApsValue
               \<lparr>aps_Alert = AlertString ''hello'', aps_Badge = None, aps_Category = '''',
                aps_ContentAvailable = 0, aps_URLArgs = [], aps_Sound = ''''\<rparr>]\<rparr>)"
  using GetIOSNotification_message_only [of ios_hello]
  by (simp add: ios_hello_def zero_PushNotification_def)

text \<open>
  Claim C9. The batch message of the Android payload builder always carries a notification
  sub-object. Its body is the message of the request when the body of the request's sub-object is
  empty, and that explicit body otherwise. Its title is the top-level title of the request when
  that title is not empty, whatever title the sub-object had, and the title of the sub-object
  otherwise.
\<close>

theorem GetAndroidNotification_body_and_title:
  "map_option gcm_Notification.Body (gcm_HttpMessage.Notification (GetAndroidNotification req)) =
     Some (if gcm_Notification.Body (PushNotification.Notification req) = '''' then Message req
           else gcm_Notification.Body (PushNotification.Notification req)) \<and>
   map_option gcm_Notification.Title (gcm_HttpMessage.Notification (GetAndroidNotification req)) =
     Some (if PushNotification.Title req \<noteq> '''' then PushNotification.Title req
           else gcm_Notification.Title (PushNotification.Notification req))"
  by (simp add: GetAndroidNotification_def when_set_def Let_def)

theorem GetAndroidNotification_body_and_title_witness:
  "map_option gcm_Notification.Body (gcm_HttpMessage.Notification
     (GetAndroidNotification (android_hello\<lparr>PushNotification.Title := ''news'',
        PushNotification.Notification :=
          \<lparr>gcm_Notification.Title = ''old'', gcm_Notification.Body = '''',
           gcm_Notification.Sound = ''''\<rparr>\<rparr>))) = Some ''hello'' \<and>
   map_option gcm_Notification.Title (gcm_HttpMessage.Notification
     (GetAndroidNotification (android_hello\<lparr>PushNotification.Title := ''news'',
        PushNotification.Notification :=
          \<lparr>gcm_Notification.Title = ''old'', gcm_Notification.Body = '''',
           gcm_Notification.Sound = ''''\<rparr>\<rparr>))) = Some ''news''"
  using GetAndroidNotification_body_and_title [of "android_hello\<lparr>PushNotification.Title := ''news'',
        PushNotification.Notification :=
          \<lparr>gcm_Notification.Title = ''old'', gcm_Notification.Body = '''',
           gcm_Notification.Sound = ''''\<rparr>\<rparr>"]
  by (simp add: android_hello_def zero_PushNotification_def)

text \<open>
  A custom key named \<^verbatim>\<open>aps\<close> replaces the dictionary, and the setter of the title that follows
  panics on its type assertion.
\<close>

lemma GetIOSNotification_custom_aps_panics:
  "GetIOSNotification (ios_hello\<lparr>PushNotification.Title := ''news'',
      PushNotification.Data := [(''aps'', ())]\<rparr>) = Inl InterfaceConversion"
  by (simp add: GetIOSNotification_def iosAlertDictionary_def when_set_def then_when_def
        and_then_def payload_Alert_def payload_AlertTitle_def set_alert_def set_aps_def
        payload_aps_def payload_Custom_def payload_NewPayload_def ios_hello_def
        zero_PushNotification_def zero_Alert_def Let_def)

section \<open>Properties of the connection registry\<close>


lemma initAPNSClient_clients:
  "clients (snd (initAPNSClient cert apps appid g)) = clients g"
  by (simp add: initAPNSClient_def LogError_Error_def Let_def split: sum.split)


lemma initAPNSClient_error_no_client:
  "snd (fst (initAPNSClient cert apps appid g)) = Some err \<Longrightarrow>
     fst (fst (initAPNSClient cert apps appid g)) = None"
  by (simp add: initAPNSClient_def Let_def split: if_splits sum.splits)

lemma GetAPNSClient_hit:
  "clients g = Some m \<Longrightarrow> m appid = Some client \<Longrightarrow>
     GetAPNSClient cert apps appid g = Inr ((client, None), g)"
  by (simp add: GetAPNSClient_def clients_at_def)

lemma GetAPNSClient_miss:
  "clients g = Some m \<Longrightarrow> m appid = None \<Longrightarrow>
     GetAPNSClient cert apps appid g =
       Inr (fst (initAPNSClient cert apps appid g),
            (snd (initAPNSClient cert apps appid g))
              \<lparr>clients := Some (m(appid \<mapsto> fst (fst (initAPNSClient cert apps appid g))))\<rparr>)"
  using initAPNSClient_clients [of cert apps appid g]
  by (auto simp add: GetAPNSClient_def clients_at_def split: prod.split)

lemma GetAPNSClient_nil_map:
  "clients g = None \<Longrightarrow> GetAPNSClient cert apps appid g = Inl AssignmentToNilMap"
  using initAPNSClient_clients [of cert apps appid g]
  by (auto simp add: GetAPNSClient_def clients_at_def split: prod.split)







lemma Ext_key_txt: "filepath_Ext ''certs/key.txt'' = ''.txt''"
  by (simp add: filepath_Ext_def)

lemma Ext_key_pem: "filepath_Ext ''certs/key.pem'' = ''.pem''"
  by (simp add: filepath_Ext_def)

lemma initAPNSClient_blog:
  "initAPNSClient example_cert example_apps ''blog'' g =
     ((None, Some (GoError ''Wrong Certificate key extension.'')),
      LogError_Error [''Cert Error:'', ''Wrong Certificate key extension.''] g)"
  by (simp add: initAPNSClient_def example_apps_def Apps_at_def Ext_key_txt Error_text_def)

lemma GetAPNSClient_failure_cached:
  assumes "clients g = Some m" and "m appid = None"
    and "snd (fst (initAPNSClient cert apps appid g)) = Some err"
  shows "\<exists>g'. GetAPNSClient cert apps appid g = Inr ((None, Some err), g') \<and>
              GetAPNSClient cert apps appid g' = Inr ((None, None), g')"
proof -
  let ?g' = "(snd (initAPNSClient cert apps appid g))\<lparr>clients := Some (m(appid \<mapsto> None))\<rparr>"
  have none: "fst (fst (initAPNSClient cert apps appid g)) = None"
    using assms(3) by (rule initAPNSClient_error_no_client)
  with assms(3) have result: "fst (initAPNSClient cert apps appid g) = (None, Some err)"
    by (simp add: prod_eq_iff)
  have first: "GetAPNSClient cert apps appid g = Inr ((None, Some err), ?g')"
    by (simp add: GetAPNSClient_miss [OF assms(1) assms(2)] result)
  have second: "GetAPNSClient cert apps appid ?g' = Inr ((None, None), ?g')"
    by (rule GetAPNSClient_hit [of _ "m(appid \<mapsto> None)"]) simp_all
  from first second show ?thesis
    by blast
qed

lemma GetIOSNotification_ios_blog: "\<exists>n. GetIOSNotification ios_blog = Inr n"
  by (simp add: GetIOSNotification_def iosAlertDictionary_def when_set_def then_when_def
        and_then_def payload_Alert_def set_aps_def payload_aps_def payload_NewPayload_def
        ios_blog_def zero_PushNotification_def zero_Alert_def Let_def)

text \<open>
  Claim C2 at a failing input. The application \<open>blog\<close> has iOS enabled and a key file with an
  unknown extension. On an allocated, empty registry the first lookup returns the construction
  error and stores a nil client under the identity. The second lookup returns that nil client
  with a nil error and changes nothing, although a construction attempted in that state would
  fail with the same error again; a dispatch for the application then skips the error branch and
  dereferences the nil client. On the registry of a process that has just started, whose map is
  nil, the first lookup panics at the store, after the construction has failed.
\<close>

theorem GetAPNSClient_failed_construction_poisons_registry:
  "GetAPNSClient example_cert example_apps ''blog'' allocated_globals =
     Inr ((None, Some (GoError ''Wrong Certificate key extension.'')), blog_poisoned) \<and>
   GetAPNSClient example_cert example_apps ''blog'' blog_poisoned =
     Inr ((None, None), blog_poisoned) \<and>
   fst (initAPNSClient example_cert example_apps ''blog'' blog_poisoned) =
     (None, Some (GoError ''Wrong Certificate key extension.'')) \<and>
   PushToIOS example_cert example_apps push_rejected ios_blog blog_poisoned =
     Inl NilPointerDereference \<and>
   GetAPNSClient example_cert example_apps ''blog'' start_globals = Inl AssignmentToNilMap"
proof -
  have made: "clients allocated_globals = Some Map.empty"
    by (simp add: allocated_globals_def)
  have state: "(LogError_Error [''Cert Error:'', ''Wrong Certificate key extension.'']
      allocated_globals)\<lparr>clients := Some [''blog'' \<mapsto> None]\<rparr> = blog_poisoned"
    by (simp add: allocated_globals_def blog_poisoned_def start_globals_def LogError_Error_def)
  have first: "GetAPNSClient example_cert example_apps ''blog'' allocated_globals =
      Inr ((None, Some (GoError ''Wrong Certificate key extension.'')), blog_poisoned)"
    by (simp add: GetAPNSClient_miss [OF made] initAPNSClient_blog state)
  have second: "GetAPNSClient example_cert example_apps ''blog'' g = Inr ((None, None), g)"
    if "clients g = Some [''blog'' \<mapsto> None]" for g :: "(unit, string) globals"
    using that by (rule GetAPNSClient_hit) simp
  have cached: "clients blog_poisoned = Some [''blog'' \<mapsto> None]"
    by (simp add: blog_poisoned_def)
  have debug: "clients (LogAccess_Debug ''Start push notification for iOS'' blog_poisoned) =
      Some [''blog'' \<mapsto> None]"
    by (simp add: blog_poisoned_def LogAccess_Debug_def)
  from GetIOSNotification_ios_blog obtain n where n: "GetIOSNotification ios_blog = Inr n"
    by auto
  have app: "AppID ios_blog = ''blog''" and toks: "Tokens ios_blog = [''t1'']"
    by (simp_all add: ios_blog_def zero_PushNotification_def)
  have dispatch: "PushToIOS example_cert example_apps push_rejected ios_blog blog_poisoned =
      Inl NilPointerDereference"
    by (simp add: PushToIOS_def n app toks second [OF debug])
  have nil: "clients start_globals = None"
    by (simp add: start_globals_def)
  from first second [OF cached] dispatch GetAPNSClient_nil_map [OF nil] show ?thesis
    by (simp add: initAPNSClient_blog)
qed

section \<open>Properties of the iOS dispatcher\<close>

text \<open>
  Claim C1 at a failing input. On an allocated registry, one token is sent through a client
  that was obtained, and the delivery network answers with status 400 and the reason
  \<open>BadDeviceToken\<close>. The dispatcher logs the attempt as failed and counts one iOS error, yet it
  returns false: the branch for a rejected token does not set \<^verbatim>\<open>isError\<close>, unlike the branch
  for a transport error.
\<close>

theorem PushToIOS_rejected_token_returns_false:
  "dispatch_outcome
     (PushToIOS example_cert example_apps push_rejected ios_default allocated_globals) =
     Inr (False,
          \<lparr>TotalCount = 0, IosSuccess = 0, IosError = 1, AndroidSuccess = 0, AndroidError = 0\<rparr>,
          [PushLog FailedPush ''t1'' ios_default (Some (GoError ''BadDeviceToken''))])"
proof -
  let ?g = "LogAccess_Debug ''Start push notification for iOS'' allocated_globals"
  let ?c = "\<lparr>Certificate = ''certs/key.pem'', Host = HostDevelopment\<rparr>"
  have made: "clients ?g = Some Map.empty"
    by (simp add: allocated_globals_def LogAccess_Debug_def)
  have init: "initAPNSClient example_cert example_apps ''default'' ?g = ((Some ?c, None), ?g)"
    by (simp add: initAPNSClient_def example_apps_def Apps_at_def Ext_key_pem example_cert_def)
  have get: "GetAPNSClient example_cert example_apps ''default'' ?g =
      Inr ((Some ?c, None), ?g\<lparr>clients := Some [''default'' \<mapsto> Some ?c]\<rparr>)"
    by (simp add: GetAPNSClient_miss [OF made] init)
  have app: "AppID ios_default = ''default''" and toks: "Tokens ios_default = [''t1'']"
    by (simp_all add: ios_default_def zero_PushNotification_def)
  have "\<exists>n. GetIOSNotification ios_default = Inr n"
    by (simp add: GetIOSNotification_def iosAlertDictionary_def when_set_def then_when_def
          and_then_def payload_Alert_def set_aps_def payload_aps_def payload_NewPayload_def
          ios_default_def zero_PushNotification_def zero_Alert_def Let_def)
  then obtain n where n: "GetIOSNotification ios_default = Inr n"
    by auto
  have run: "PushToIOS example_cert example_apps push_rejected ios_default allocated_globals =
      ios_loop push_rejected (Some ?c) ios_default n [''t1''] 0 False
        (?g\<lparr>clients := Some [''default'' \<mapsto> Some ?c]\<rparr>)"
    by (simp add: PushToIOS_def n app toks get)
  show ?thesis
    unfolding run
    by (simp add: push_rejected_def rejected_response_def dispatch_outcome_def AddIosError_def
          LogPush_def LogAccess_Debug_def allocated_globals_def start_globals_def)
qed

section \<open>Properties of the dispatch queue\<close>

lemma with_identity_fields:
  "Platform (with_identity n) = Platform n" "Tokens (with_identity n) = Tokens n"
  by (simp_all add: with_identity_def)

lemma queue_loop_eligible:
  assumes "\<forall>n\<in>set ns. Platform n = PlatFormIos \<or> Platform n = PlatFormAndroid"
  shows "fst (queue_loop apps ns count g) =
           count + token_total (filter (spec_eligible apps) ns) \<and>
         QueueNotification (snd (queue_loop apps ns count g)) =
           QueueNotification g @ map with_identity (filter (spec_eligible apps) ns) \<and>
         Stats (snd (queue_loop apps ns count g)) = Stats g"
  using assms
proof (induction ns arbitrary: count g)
  case Nil
  then show ?case
    by (simp add: token_total_def)
next
  case (Cons n ns)
  then have rest: "\<forall>m\<in>set ns. Platform m = PlatFormIos \<or> Platform m = PlatFormAndroid"
    and here: "Platform n = PlatFormIos \<or> Platform n = PlatFormAndroid"
    by simp_all
  note IH = Cons.IH [OF rest]
  have distinct: "PlatFormIos \<noteq> PlatFormAndroid"
    by (simp add: PlatFormIos_def PlatFormAndroid_def)
  show ?case
  proof (cases "apps (AppID (with_identity n))")
    case None
    then have "\<not> spec_eligible apps n"
      by (simp add: spec_eligible_def)
    with None show ?thesis
      using IH [of count "LogError_Error [''Unknown app: '' @ AppID (with_identity n)] g"]
      by (simp add: with_identity_def [symmetric] LogError_Error_def)
  next
    case (Some app)
    show ?thesis
    proof (cases "spec_eligible apps n")
      case True
      with Some here distinct show ?thesis
        using IH [of "count + int (length (Tokens n))"
            "g\<lparr>QueueNotification := QueueNotification g @ [with_identity n]\<rparr>"]
        by (auto simp add: with_identity_def [symmetric] with_identity_fields spec_eligible_def
            Apps_at_def token_total_def)
    next
      case False
      with Some here distinct show ?thesis
        using IH [of count g]
        by (auto simp add: with_identity_def [symmetric] with_identity_fields spec_eligible_def
            Apps_at_def)
    qed
  qed
qed

text \<open>
  Claim C4, as stated, fails. A notification whose platform is 3, neither iOS nor Android, is
  not eligible in the words of the claim, since no platform of its application is the enabled
  platform of the notification; the switch on the platform has no case for it, so it is sent on
  the queue and its token is counted.
\<close>

theorem queueNotification_other_platform_enqueued:
  "\<not> spec_eligible example_apps other_platform \<and>
   fst (queueNotification example_apps \<lparr>Notifications = [other_platform]\<rparr> start_globals) = 1 \<and>
   QueueNotification
     (snd (queueNotification example_apps \<lparr>Notifications = [other_platform]\<rparr> start_globals)) =
     [other_platform] \<and>
   TotalCount (Stats
     (snd (queueNotification example_apps \<lparr>Notifications = [other_platform]\<rparr> start_globals))) = 1"
  by (simp add: spec_eligible_def with_identity_def queueNotification_def other_platform_def
        zero_PushNotification_def example_apps_def PlatFormIos_def PlatFormAndroid_def
        AddTotalCount_def start_globals_def)

text \<open>
  Claim C4, amended. For every request whose notifications all have the platform iOS or
  Android, the notifications sent on the queue are exactly the eligible ones (identity, after
  defaulting to \<open>default\<close>, configured and the platform of the notification enabled for it), in
  the order of the request and with the defaulted identity; the returned count and the increment
  of the total-accepted counter are the sum of the token-list lengths of exactly those
  notifications, so a dropped notification adds nothing.
\<close>

theorem queueNotification_enqueues_eligible:
  assumes "\<forall>n\<in>set (Notifications req). Platform n = PlatFormIos \<or> Platform n = PlatFormAndroid"
  shows "fst (queueNotification apps req g) =
           token_total (filter (spec_eligible apps) (Notifications req)) \<and>
         QueueNotification (snd (queueNotification apps req g)) =
           QueueNotification g @ map with_identity (filter (spec_eligible apps) (Notifications req)) \<and>
         TotalCount (Stats (snd (queueNotification apps req g))) =
           TotalCount (Stats g) + token_total (filter (spec_eligible apps) (Notifications req))"
proof -
  note loop = queue_loop_eligible [OF assms, of apps 0 g]
  have "queueNotification apps req g =
      (fst (queue_loop apps (Notifications req) 0 g),
       AddTotalCount (fst (queue_loop apps (Notifications req) 0 g))
         (snd (queue_loop apps (Notifications req) 0 g)))"
    by (simp add: queueNotification_def split_beta)
  with loop show ?thesis
    by (simp add: AddTotalCount_def)
qed

theorem queueNotification_enqueues_eligible_witness:
  "map Platform (Notifications mixed_request) =
     [PlatFormAndroid, PlatFormIos, PlatFormIos, PlatFormAndroid] \<and>
   fst (queueNotification example_apps mixed_request start_globals) = 3 \<and>
   QueueNotification (snd (queueNotification example_apps mixed_request start_globals)) =
     [android_hello, ios_default] \<and>
   TotalCount (Stats (snd (queueNotification example_apps mixed_request start_globals))) = 3"
proof -
  have platforms: "\<forall>n\<in>set (Notifications mixed_request).
      Platform n = PlatFormIos \<or> Platform n = PlatFormAndroid"
    by (simp add: mixed_request_def android_hello_def ios_hello_def ios_default_def
          zero_PushNotification_def PlatFormIos_def PlatFormAndroid_def)
  have eligible: "filter (spec_eligible example_apps) (Notifications mixed_request) =
      [android_hello, ios_default\<lparr>AppID := ''''\<rparr>]"
    by (simp add: mixed_request_def spec_eligible_def with_identity_def android_hello_def
          ios_hello_def ios_default_def zero_PushNotification_def example_apps_def
          PlatFormIos_def PlatFormAndroid_def AppNameDefault_def)
  have identity: "with_identity android_hello = android_hello"
    "with_identity (ios_default\<lparr>AppID := ''''\<rparr>) = ios_default"
    by (simp_all add: with_identity_def android_hello_def ios_default_def zero_PushNotification_def
          AppNameDefault_def)
  have total: "token_total [android_hello, ios_default\<lparr>AppID := ''''\<rparr>] = 3"
    by (simp add: token_total_def android_hello_def ios_default_def zero_PushNotification_def)
  have listed: "map Platform (Notifications mixed_request) =
      [PlatFormAndroid, PlatFormIos, PlatFormIos, PlatFormAndroid]"
    by (simp add: mixed_request_def android_hello_def ios_hello_def ios_default_def
          zero_PushNotification_def PlatFormIos_def PlatFormAndroid_def)
  show ?thesis
    using listed queueNotification_enqueues_eligible [OF platforms, of example_apps start_globals]
    by (simp add: eligible identity total start_globals_def)
qed

end
